theory Spec2Isabelle
  imports Main
begin

section \<open>JavaScript values\<close>

text \<open>
  The program handles JSON data (token responses, the stored record, the envelope in the
  file) and JavaScript's own \<open>undefined\<close>. Numbers are the integer-valued ones
  (epoch milliseconds, seconds) and \<open>NaN\<close>, which \<open>undefined * 1000\<close> produces;
  arithmetic on them is exact, as it is for doubles below \<open>2^53\<close>.
  An object is its list of properties, read by the first entry of a name.
\<close>

datatype jsnum = NaN | Fin int

datatype jsval =
    Undefined
  | Null
  | Bool bool
  | Num jsnum
  | Str string
  | Arr "jsval list"
  | Obj "(string \<times> jsval) list"

fun num_add :: "jsnum \<Rightarrow> jsnum \<Rightarrow> jsnum" where
  "num_add (Fin a) (Fin b) = Fin (a + b)"
| "num_add _ _ = NaN"

fun num_sub :: "jsnum \<Rightarrow> jsnum \<Rightarrow> jsnum" where
  "num_sub (Fin a) (Fin b) = Fin (a - b)"
| "num_sub _ _ = NaN"

fun num_mul :: "jsnum \<Rightarrow> jsnum \<Rightarrow> jsnum" where
  "num_mul (Fin a) (Fin b) = Fin (a * b)"
| "num_mul _ _ = NaN"

text \<open>\<open>a < b\<close> on numbers: false as soon as one side is \<open>NaN\<close>.\<close>

fun num_lt :: "jsnum \<Rightarrow> jsnum \<Rightarrow> bool" where
  "num_lt (Fin a) (Fin b) = (a < b)"
| "num_lt _ _ = False"

text \<open>
  The test of \<open>if (v)\<close> and \<open>!v\<close>: \<open>undefined\<close>, \<open>null\<close>, \<open>false\<close>, \<open>0\<close>,
  \<open>NaN\<close> and the empty string are falsy, everything else is truthy.
\<close>

fun truthy :: "jsval \<Rightarrow> bool" where
  "truthy Undefined = False"
| "truthy Null = False"
| "truthy (Bool b) = b"
| "truthy (Num NaN) = False"
| "truthy (Num (Fin n)) = (n \<noteq> 0)"
| "truthy (Str s) = (s \<noteq> [])"
| "truthy (Arr _) = True"
| "truthy (Obj _) = True"

text \<open>
  Reading a property \<open>v.name\<close>, for the names this program reads (\<open>error\<close>,
  \<open>access_token\<close>, \<open>encrypted\<close>, ...): a TypeError on \<open>undefined\<close> and \<open>null\<close>
  (the result \<open>None\<close>), \<open>undefined\<close> on a primitive, an array or an object without
  the property.
\<close>

fun get_prop :: "jsval \<Rightarrow> string \<Rightarrow> jsval option" where
  "get_prop Undefined k = None"
| "get_prop Null k = None"
| "get_prop (Obj kvs) k = Some (case map_of kvs k of None \<Rightarrow> Undefined | Some v \<Rightarrow> v)"
| "get_prop _ k = Some Undefined"

text \<open>
  The same read where the source has already found the value truthy (\<open>tokens.expires_at\<close>
  after \<open>if (!tokens) throw\<close>), so that no TypeError is possible.
\<close>

definition get_field :: "jsval \<Rightarrow> string \<Rightarrow> jsval" where
  "get_field v k = (case get_prop v k of None \<Rightarrow> Undefined | Some x \<Rightarrow> x)"

section \<open>The runtime the program calls\<close>

text \<open>
  Node's \<open>crypto\<close>, \<open>JSON\<close> and \<open>querystring\<close>, and the coercions of the language
  on strings and objects, are not code of this repository: they are parameters of the
  model, and every theorem holds for whatever they compute. \<open>None\<close> is a thrown
  exception (for \<open>json_stringify\<close>, the result \<open>undefined\<close>).
\<close>

record runtime =
  cipher :: "string \<Rightarrow> string \<Rightarrow> string option"
    \<comment> \<open>\<open>createCipher('aes-256-cbc', key)\<close>, \<open>update(text, 'utf8', 'hex') + final('hex')\<close>\<close>
  decipher :: "string \<Rightarrow> string \<Rightarrow> string option"
    \<comment> \<open>\<open>createDecipher('aes-256-cbc', key)\<close>, \<open>update(hex, 'hex', 'utf8') + final('utf8')\<close>\<close>
  scryptSync :: "string \<Rightarrow> string \<Rightarrow> nat \<Rightarrow> string"
  sha256_hex :: "string \<Rightarrow> string"
    \<comment> \<open>\<open>createHash('sha256').update(s).digest('hex')\<close>\<close>
  json_stringify :: "jsval \<Rightarrow> string option"
  json_parse :: "string \<Rightarrow> jsval option"
  qs_stringify :: "(string \<times> string) list \<Rightarrow> string"
  coerce_number :: "jsval \<Rightarrow> jsnum"
    \<comment> \<open>ToNumber on strings, arrays and objects\<close>
  coerce_string :: "jsval \<Rightarrow> string"
    \<comment> \<open>ToString, as a template literal applies it\<close>

fun to_number :: "runtime \<Rightarrow> jsval \<Rightarrow> jsnum" where
  "to_number rt Undefined = NaN"
| "to_number rt Null = Fin 0"
| "to_number rt (Bool b) = Fin (if b then 1 else 0)"
| "to_number rt (Num n) = n"
| "to_number rt v = coerce_number rt v"

text \<open>\<open>Buffer.toString('hex')\<close>: two lowercase hexadecimal digits for each byte.\<close>

definition hex_digit :: "nat \<Rightarrow> char" where
  "hex_digit n = (if n < 10 then char_of (48 + n) else char_of (87 + n))"

fun to_hex :: "string \<Rightarrow> string" where
  "to_hex [] = []"
| "to_hex (c # cs) =
     hex_digit (of_char c div 16) # hex_digit (of_char c mod 16) # to_hex cs"

section \<open>SecureTokenStorage\<close>

text \<open>
  The storage object holds the key; its file is the one file of the server's state,
  \<open>None\<close> while it does not exist.
\<close>

record storage =
  encryptionKey :: string

text \<open>
  The constructor: a missing or empty key is replaced by 32 random bytes in hex; a key
  shorter than 32 characters is stretched with scrypt and the fixed salt.
\<close>

definition generateEncryptionKey :: "string \<Rightarrow> string" where
  "generateEncryptionKey random32 = to_hex random32"

definition new_storage :: "runtime \<Rightarrow> string option \<Rightarrow> string \<Rightarrow> storage" where
  "new_storage rt key random32 =
     (let k = (case key of None \<Rightarrow> generateEncryptionKey random32
               | Some s \<Rightarrow> if s = [] then generateEncryptionKey random32 else s)
      in \<lparr>encryptionKey =
            (if length k < 32 then to_hex (scryptSync rt k ''salt'' 32) else k)\<rparr>)"

text \<open>
  \<open>encrypt\<close>: the 16 random bytes \<open>iv\<close> are drawn and returned in the envelope; the
  cipher is made from the key alone. \<open>None\<close> when the runtime throws.
\<close>

definition encrypt :: "runtime \<Rightarrow> storage \<Rightarrow> string \<Rightarrow> jsval \<Rightarrow> jsval option" where
  "encrypt rt st iv data =
     (case json_stringify rt data of
        None \<Rightarrow> None
      | Some text \<Rightarrow>
          (case cipher rt (encryptionKey st) text of
             None \<Rightarrow> None
           | Some encrypted \<Rightarrow>
               Some (Obj [(''iv'', Str (to_hex iv)), (''encrypted'', Str encrypted)])))"

text \<open>
  \<open>decrypt\<close>: everything is inside the \<open>try\<close>; any exception (no \<open>encrypted\<close> to read,
  not a string, a failing decipher, plaintext that is not JSON) gives \<open>null\<close>.
\<close>

definition decrypt_try :: "runtime \<Rightarrow> storage \<Rightarrow> jsval \<Rightarrow> jsval option" where
  "decrypt_try rt st encryptedData =
     (case get_prop encryptedData ''encrypted'' of
        Some (Str hex) \<Rightarrow>
          (case decipher rt (encryptionKey st) hex of
             None \<Rightarrow> None
           | Some decrypted \<Rightarrow> json_parse rt decrypted)
      | _ \<Rightarrow> None)"

definition decrypt :: "runtime \<Rightarrow> storage \<Rightarrow> jsval \<Rightarrow> jsval" where
  "decrypt rt st encryptedData =
     (case decrypt_try rt st encryptedData of None \<Rightarrow> Null | Some v \<Rightarrow> v)"

text \<open>
  \<open>saveTokens\<close> returns its boolean and the file after the call. \<open>write_fault\<close> is
  \<open>None\<close> when \<open>writeFileSync\<close> succeeds, and \<open>Some f\<close> when it throws, leaving the
  file as \<open>f\<close>.
\<close>

definition saveTokens ::
  "runtime \<Rightarrow> storage \<Rightarrow> string \<Rightarrow> string option option \<Rightarrow> string option \<Rightarrow> jsval
     \<Rightarrow> bool \<times> string option" where
  "saveTokens rt st iv write_fault file tokens =
     (case encrypt rt st iv tokens of
        None \<Rightarrow> (False, file)
      | Some encrypted \<Rightarrow>
          (case json_stringify rt encrypted of
             None \<Rightarrow> (False, file)
           | Some text \<Rightarrow>
               (case write_fault of
                  None \<Rightarrow> (True, Some text)
                | Some f \<Rightarrow> (False, f))))"

definition loadTokens :: "runtime \<Rightarrow> storage \<Rightarrow> string option \<Rightarrow> jsval" where
  "loadTokens rt st file =
     (case file of
        None \<Rightarrow> Null
      | Some content \<Rightarrow>
          (case json_parse rt content of
             None \<Rightarrow> Null
           | Some encryptedData \<Rightarrow>
               (let tokens = decrypt rt st encryptedData
                in if truthy tokens then tokens else Null)))"

section \<open>The server\<close>

text \<open>
  \<open>process.env\<close>, the module's mutable state and the replies of the two handlers.
  The state is the PKCE slot \<open>codeVerifier\<close> (\<open>null\<close> is \<open>None\<close>), the file of the
  token storage, and the calls made to the token endpoint so far, oldest first.
  A call of a handler is one step on this state: no other handler runs while it awaits
  the token endpoint.
\<close>

record config =
  TIKTOK_CLIENT_KEY :: string
  TIKTOK_CLIENT_SECRET :: string
  TIKTOK_REDIRECT_URI :: string

datatype request = Post string jsval

record world =
  codeVerifier :: "string option"
  tokenFile :: "string option"
  requests :: "request list"

text \<open>
  What one call meets outside the program: the answer of \<open>axios.post\<close> (\<open>None\<close> when the
  promise rejects, on a transport error or a status outside 2xx; else \<open>response.data\<close>),
  the reading of \<open>Date.now()\<close> at the expiry test and the one when the new record is
  built, the bytes of \<open>crypto.randomBytes(16)\<close>, and the fate of \<open>writeFileSync\<close>.
\<close>

record io =
  upstream :: "request \<Rightarrow> jsval option"
  clock :: int
  clock_save :: int
  random_iv :: string
  write_fault :: "string option option"

datatype reply =
    Redirect string
  | Send nat string
  | LoginSuccessful

text \<open>
  \<open>generateRandomString(length)\<close>: the loop appends \<open>characters.charAt(k)\<close> for the
  draw \<open>k = Math.floor(Math.random() * 66)\<close> of each round; \<open>draw i\<close> is the draw
  of round \<open>i\<close>. \<open>charAt\<close> outside the string is the empty string.
\<close>

definition characters :: string where
  "characters = ''ABCDEFGHIJKLMNOPQRSTUVWXYZabcdefghijklmnopqrstuvwxyz0123456789-._~''"

definition charAt :: "string \<Rightarrow> nat \<Rightarrow> string" where
  "charAt s k = (if k < length s then [s ! k] else [])"

fun generateRandomString :: "(nat \<Rightarrow> nat) \<Rightarrow> nat \<Rightarrow> string" where
  "generateRandomString draw 0 = []"
| "generateRandomString draw (Suc i) = generateRandomString draw i @ charAt characters (draw i)"

definition generatePKCE :: "runtime \<Rightarrow> (nat \<Rightarrow> nat) \<Rightarrow> string \<times> string" where
  "generatePKCE rt draw =
     (let verifier = generateRandomString draw 64;
          challenge = sha256_hex rt verifier
      in (verifier, challenge))"

text \<open>\<open>GET /auth/login\<close>.\<close>

definition auth_login :: "runtime \<Rightarrow> config \<Rightarrow> (nat \<Rightarrow> nat) \<Rightarrow> world \<Rightarrow> reply \<times> world" where
  "auth_login rt cfg draw w =
     (let pkce = generatePKCE rt draw;
          w1 = w\<lparr>codeVerifier := Some (fst pkce)\<rparr>;
          params =
            [(''client_key'', TIKTOK_CLIENT_KEY cfg),
             (''redirect_uri'', TIKTOK_REDIRECT_URI cfg),
             (''response_type'', ''code''),
             (''scope'',
              ''user.info.basic,user.info.profile,user.info.stats,video.publish,video.upload''),
             (''state'', ''secureRandomState123''),
             (''code_challenge'', snd pkce),
             (''code_challenge_method'', ''S256'')];
          authUrl = ''https://www.tiktok.com/v2/auth/authorize/?'' @ qs_stringify rt params
      in (Redirect authUrl, w1))"

text \<open>
  The template literal \<open>`${v}`\<close>, and the record both exchanges build from the
  response: \<open>{access_token, refresh_token, expires_at: Date.now() + expires_in * 1000}\<close>.
\<close>

fun to_string :: "runtime \<Rightarrow> jsval \<Rightarrow> string" where
  "to_string rt (Str s) = s"
| "to_string rt Undefined = ''undefined''"
| "to_string rt Null = ''null''"
| "to_string rt (Bool b) = (if b then ''true'' else ''false'')"
| "to_string rt v = coerce_string rt v"

definition new_tokens :: "runtime \<Rightarrow> int \<Rightarrow> jsval \<Rightarrow> jsval" where
  "new_tokens rt now data =
     Obj [(''access_token'', get_field data ''access_token''),
          (''refresh_token'', get_field data ''refresh_token''),
          (''expires_at'',
           Num (num_add (Fin now)
                  (num_mul (to_number rt (get_field data ''expires_in'')) (Fin 1000))))]"

definition token_url :: string where
  "token_url = ''https://open.tiktokapis.com/v2/oauth/token/''"

definition code_request :: "config \<Rightarrow> string \<Rightarrow> string \<Rightarrow> request" where
  "code_request cfg code verifier =
     Post token_url
       (Obj [(''client_key'', Str (TIKTOK_CLIENT_KEY cfg)),
             (''client_secret'', Str (TIKTOK_CLIENT_SECRET cfg)),
             (''code'', Str code),
             (''grant_type'', Str ''authorization_code''),
             (''redirect_uri'', Str (TIKTOK_REDIRECT_URI cfg)),
             (''code_verifier'', Str verifier)])"

definition refresh_request :: "config \<Rightarrow> jsval \<Rightarrow> request" where
  "refresh_request cfg tokens =
     Post token_url
       (Obj [(''client_key'', Str (TIKTOK_CLIENT_KEY cfg)),
             (''client_secret'', Str (TIKTOK_CLIENT_SECRET cfg)),
             (''grant_type'', Str ''refresh_token''),
             (''refresh_token'', get_field tokens ''refresh_token'')])"

text \<open>
  \<open>GET /auth/callback\<close>, with \<open>req.query.code\<close> absent or a string. The two early
  returns come before the \<open>try\<close>; inside it a rejected request and the TypeError of
  reading \<open>data.error\<close> on \<open>null\<close> or \<open>undefined\<close> both end in the \<open>catch\<close>.
  \<open>saveTokens\<close> cannot throw, and its boolean is not read. \<open>LoginSuccessful\<close> is
  the page sent with status 200.
\<close>

definition auth_callback ::
  "runtime \<Rightarrow> config \<Rightarrow> storage \<Rightarrow> io \<Rightarrow> string option \<Rightarrow> world \<Rightarrow> reply \<times> world" where
  "auth_callback rt cfg st e code w =
     (case code of
        None \<Rightarrow> (Send 400 ''Missing code'', w)
      | Some c \<Rightarrow>
          if c = [] then (Send 400 ''Missing code'', w)
          else
            (case codeVerifier w of
               None \<Rightarrow> (Send 400 ''No code verifier found'', w)
             | Some verifier \<Rightarrow>
                 if verifier = [] then (Send 400 ''No code verifier found'', w)
                 else
                   (let requestData = code_request cfg c verifier;
                        w1 = w\<lparr>requests := requests w @ [requestData]\<rparr>
                    in case upstream e requestData of
                         None \<Rightarrow> (Send 500 ''Token exchange failed'', w1)
                       | Some data \<Rightarrow>
                           (case get_prop data ''error'' of
                              None \<Rightarrow> (Send 500 ''Token exchange failed'', w1)
                            | Some err \<Rightarrow>
                                if truthy err then
                                  (Send 400
                                     (''Error: '' @ to_string rt err @ '', Description: ''
                                        @ to_string rt (get_field data ''error_description'')),
                                   w1)
                                else if \<not> truthy (get_field data ''access_token'') then
                                  (Send 400 ''Access token not received'', w1)
                                else
                                  (let saved =
                                         saveTokens rt st (random_iv e) (write_fault e) (tokenFile w1)
                                           (new_tokens rt (clock_save e) data)
                                   in (LoginSuccessful,
                                       w1\<lparr>tokenFile := snd saved, codeVerifier := None\<rparr>))))))"

text \<open>
  \<open>getValidAccessToken\<close>: the promise rejects (\<open>Inl\<close>) with the thrown Error when no
  tokens load, with the error of \<open>axios.post\<close>, or with the TypeError of destructuring
  \<open>null\<close> or \<open>undefined\<close>; it resolves (\<open>Inr\<close>) with the \<open>access_token\<close> read.
\<close>

datatype failure = NoTokensAvailable | RequestFailed | TypeError

definition getValidAccessToken ::
  "runtime \<Rightarrow> config \<Rightarrow> storage \<Rightarrow> io \<Rightarrow> world \<Rightarrow> (failure + jsval) \<times> world" where
  "getValidAccessToken rt cfg st e w =
     (let tokens = loadTokens rt st (tokenFile w)
      in if \<not> truthy tokens then (Inl NoTokensAvailable, w)
         else if num_lt (Fin (clock e))
                   (num_sub (to_number rt (get_field tokens ''expires_at'')) (Fin (60 * 1000)))
         then (Inr (get_field tokens ''access_token''), w)
         else
           (let refreshReq = refresh_request cfg tokens;
                w1 = w\<lparr>requests := requests w @ [refreshReq]\<rparr>
            in case upstream e refreshReq of
                 None \<Rightarrow> (Inl RequestFailed, w1)
               | Some data \<Rightarrow>
                   (case get_prop data ''access_token'' of
                      None \<Rightarrow> (Inl TypeError, w1)
                    | Some access_token \<Rightarrow>
                        (let saved =
                               saveTokens rt st (random_iv e) (write_fault e) (tokenFile w1)
                                 (new_tokens rt (clock_save e) data)
                         in (Inr access_token, w1\<lparr>tokenFile := snd saved\<rparr>)))))"

section \<open>A runtime to evaluate the model on\<close>

text \<open>
  The theorems below hold for every runtime. To run the model on concrete inputs, this
  section gives one: JSON text as Node writes and reads it, for the values of
  \<open>jsval\<close> (integer literals, code units below 256; an \<open>undefined\<close> member is
  left out, \<open>undefined\<close> in an array and \<open>NaN\<close> are written \<open>null\<close>, a repeated
  name keeps its first place and its last value), and in place of AES and SHA-256
  stand-ins that only keep their shape: \<open>toy_cipher\<close> writes the key and the text in
  hex, and \<open>toy_decipher\<close> throws unless the text starts with its key.
\<close>

fun show_nat :: "nat \<Rightarrow> string" where
  "show_nat n =
     (if n < 10 then [hex_digit n] else show_nat (n div 10) @ [hex_digit (n mod 10)])"

definition show_int :: "int \<Rightarrow> string" where
  "show_int i = (if i < 0 then CHR ''-'' # show_nat (nat (- i)) else show_nat (nat i))"

definition escape_char :: "char \<Rightarrow> string" where
  "escape_char c =
     (if c = CHR 0x22 then [CHR 0x5C, CHR 0x22]
      else if c = CHR 0x5C then [CHR 0x5C, CHR 0x5C]
      else if c = CHR 0x08 then [CHR 0x5C, CHR ''b'']
      else if c = CHR 0x0C then [CHR 0x5C, CHR ''f'']
      else if c = CHR 0x0A then [CHR 0x5C, CHR ''n'']
      else if c = CHR 0x0D then [CHR 0x5C, CHR ''r'']
      else if c = CHR 0x09 then [CHR 0x5C, CHR ''t'']
      else if (of_char c :: nat) < 32 then [CHR 0x5C, CHR ''u'', CHR ''0'', CHR ''0''] @ to_hex [c]
      else [c])"

definition quote :: "string \<Rightarrow> string" where
  "quote s = CHR 0x22 # concat (map escape_char s) @ [CHR 0x22]"

fun join :: "string list \<Rightarrow> string" where
  "join [] = []"
| "join [x] = x"
| "join (x # y # ys) = x @ CHR '','' # join (y # ys)"

fun JSON_stringify :: "jsval \<Rightarrow> string option"
  and JSON_elements :: "jsval list \<Rightarrow> string list"
  and JSON_members :: "(string \<times> jsval) list \<Rightarrow> string list" where
  "JSON_stringify Undefined = None"
| "JSON_stringify Null = Some ''null''"
| "JSON_stringify (Bool b) = Some (if b then ''true'' else ''false'')"
| "JSON_stringify (Num NaN) = Some ''null''"
| "JSON_stringify (Num (Fin i)) = Some (show_int i)"
| "JSON_stringify (Str s) = Some (quote s)"
| "JSON_stringify (Arr vs) = Some (CHR ''['' # join (JSON_elements vs) @ '']'')"
| "JSON_stringify (Obj kvs) = Some (CHR ''{'' # join (JSON_members kvs) @ ''}'')"
| "JSON_elements [] = []"
| "JSON_elements (v # vs) =
     (case JSON_stringify v of None \<Rightarrow> ''null'' | Some s \<Rightarrow> s) # JSON_elements vs"
| "JSON_members [] = []"
| "JSON_members ((k, v) # kvs) =
     (case JSON_stringify v of
        None \<Rightarrow> JSON_members kvs
      | Some s \<Rightarrow> (quote k @ CHR '':'' # s) # JSON_members kvs)"


definition is_ws :: "char \<Rightarrow> bool" where
  "is_ws c = (c = CHR '' '' \<or> c = CHR 0x09 \<or> c = CHR 0x0A \<or> c = CHR 0x0D)"

definition is_digit :: "char \<Rightarrow> bool" where
  "is_digit c = (48 \<le> (of_char c :: nat) \<and> (of_char c :: nat) \<le> 57)"

definition hex_value :: "char \<Rightarrow> nat option" where
  "hex_value c =
     (let n = (of_char c :: nat)
      in if 48 \<le> n \<and> n \<le> 57 then Some (n - 48)
         else if 97 \<le> n \<and> n \<le> 102 then Some (n - 87)
         else if 65 \<le> n \<and> n \<le> 70 then Some (n - 55)
         else None)"

fun read_digits :: "nat \<Rightarrow> string \<Rightarrow> nat \<times> string" where
  "read_digits acc [] = (acc, [])"
| "read_digits acc (c # cs) =
     (if is_digit c then read_digits (acc * 10 + (of_char c - 48)) cs else (acc, c # cs))"

definition read_nat :: "string \<Rightarrow> (nat \<times> string) option" where
  "read_nat s =
     (case s of
        [] \<Rightarrow> None
      | c # cs \<Rightarrow>
          if \<not> is_digit c then None
          else if c = CHR ''0'' then
            (case cs of [] \<Rightarrow> Some (0, [])
             | d # ds \<Rightarrow> if is_digit d then None else Some (0, cs))
          else Some (read_digits 0 s))"

definition read_number :: "string \<Rightarrow> (jsval \<times> string) option" where
  "read_number s =
     (case (case s of
              [] \<Rightarrow> None
            | c # cs \<Rightarrow>
                if c = CHR ''-'' then map_option (\<lambda>(n, r). (- int n, r)) (read_nat cs)
                else map_option (\<lambda>(n, r). (int n, r)) (read_nat s)) of
        None \<Rightarrow> None
      | Some (i, r) \<Rightarrow>
          (case r of
             [] \<Rightarrow> Some (Num (Fin i), r)
           | c # cs \<Rightarrow>
               if c = CHR ''.'' \<or> c = CHR ''e'' \<or> c = CHR ''E'' then None
               else Some (Num (Fin i), r)))"

fun read_string :: "string \<Rightarrow> string \<Rightarrow> (string \<times> string) option" where
  "read_string acc [] = None"
| "read_string acc [c] = (if c = CHR 0x22 then Some (acc, []) else None)"
| "read_string acc (c # d # cs) =
     (if c = CHR 0x22 then Some (acc, d # cs)
      else if c = CHR 0x5C then
        (if d = CHR 0x22 \<or> d = CHR 0x5C \<or> d = CHR ''/'' then read_string (acc @ [d]) cs
         else if d = CHR ''b'' then read_string (acc @ [CHR 0x08]) cs
         else if d = CHR ''f'' then read_string (acc @ [CHR 0x0C]) cs
         else if d = CHR ''n'' then read_string (acc @ [CHR 0x0A]) cs
         else if d = CHR ''r'' then read_string (acc @ [CHR 0x0D]) cs
         else if d = CHR ''t'' then read_string (acc @ [CHR 0x09]) cs
         else if d = CHR ''u'' then
           (case cs of
              a # b # x # y # r \<Rightarrow>
                (if a = CHR ''0'' \<and> b = CHR ''0'' then
                   (case (hex_value x, hex_value y) of
                      (Some h, Some l) \<Rightarrow> read_string (acc @ [char_of (h * 16 + l)]) r
                    | _ \<Rightarrow> None)
                 else None)
            | _ \<Rightarrow> None)
         else None)
      else if (of_char c :: nat) < 32 then None
      else read_string (acc @ [c]) (d # cs))"

definition skip_ws :: "string \<Rightarrow> string" where
  "skip_ws s = dropWhile is_ws s"

fun set_member :: "(string \<times> jsval) list \<Rightarrow> string \<Rightarrow> jsval \<Rightarrow> (string \<times> jsval) list" where
  "set_member [] k v = [(k, v)]"
| "set_member ((k', v') # kvs) k v =
     (if k' = k then (k, v) # kvs else (k', v') # set_member kvs k v)"

fun read_value :: "nat \<Rightarrow> string \<Rightarrow> (jsval \<times> string) option"
  and read_elements :: "nat \<Rightarrow> jsval list \<Rightarrow> string \<Rightarrow> (jsval \<times> string) option"
  and read_members :: "nat \<Rightarrow> (string \<times> jsval) list \<Rightarrow> string \<Rightarrow> (jsval \<times> string) option"
  where
  "read_value 0 s = None"
| "read_value (Suc n) s =
     (case skip_ws s of
        [] \<Rightarrow> None
      | c # cs \<Rightarrow>
          if c = CHR ''{'' then
            (case skip_ws cs of
               [] \<Rightarrow> None
             | d # ds \<Rightarrow> if d = CHR ''}'' then Some (Obj [], ds) else read_members n [] (d # ds))
          else if c = CHR ''['' then
            (case skip_ws cs of
               [] \<Rightarrow> None
             | d # ds \<Rightarrow> if d = CHR '']'' then Some (Arr [], ds) else read_elements n [] (d # ds))
          else if c = CHR 0x22 then map_option (\<lambda>(x, r). (Str x, r)) (read_string [] cs)
          else if take 4 (c # cs) = ''true'' then Some (Bool True, drop 4 (c # cs))
          else if take 5 (c # cs) = ''false'' then Some (Bool False, drop 5 (c # cs))
          else if take 4 (c # cs) = ''null'' then Some (Null, drop 4 (c # cs))
          else read_number (c # cs))"
| "read_elements 0 acc s = None"
| "read_elements (Suc n) acc s =
     (case read_value n s of
        None \<Rightarrow> None
      | Some (v, r) \<Rightarrow>
          (case skip_ws r of
             [] \<Rightarrow> None
           | c # cs \<Rightarrow>
               if c = CHR '','' then read_elements n (acc @ [v]) cs
               else if c = CHR '']'' then Some (Arr (acc @ [v]), cs)
               else None))"
| "read_members 0 acc s = None"
| "read_members (Suc n) acc s =
     (case skip_ws s of
        [] \<Rightarrow> None
      | q # s1 \<Rightarrow>
          if q \<noteq> CHR 0x22 then None
          else
            (case read_string [] s1 of
               None \<Rightarrow> None
             | Some (k, s2) \<Rightarrow>
                 (case skip_ws s2 of
                    [] \<Rightarrow> None
                  | c # s3 \<Rightarrow>
                      if c \<noteq> CHR '':'' then None
                      else
                        (case read_value n s3 of
                           None \<Rightarrow> None
                         | Some (v, r) \<Rightarrow>
                             (case skip_ws r of
                                [] \<Rightarrow> None
                              | d # ds \<Rightarrow>
                                  if d = CHR '','' then read_members n (set_member acc k v) ds
                                  else if d = CHR ''}'' then Some (Obj (set_member acc k v), ds)
                                  else None)))))"

definition JSON_parse :: "string \<Rightarrow> jsval option" where
  "JSON_parse s =
     (case read_value (Suc (length s)) s of
        None \<Rightarrow> None
      | Some (v, r) \<Rightarrow> if skip_ws r = [] then Some v else None)"

fun from_hex :: "string \<Rightarrow> string option" where
  "from_hex [] = Some []"
| "from_hex [c] = None"
| "from_hex (a # b # cs) =
     (case (hex_value a, hex_value b, from_hex cs) of
        (Some h, Some l, Some r) \<Rightarrow> Some (char_of (h * 16 + l) # r)
      | _ \<Rightarrow> None)"

definition toy_cipher :: "string \<Rightarrow> string \<Rightarrow> string option" where
  "toy_cipher key text = Some (to_hex (key @ text))"

definition toy_decipher :: "string \<Rightarrow> string \<Rightarrow> string option" where
  "toy_decipher key hex =
     (case from_hex hex of
        None \<Rightarrow> None
      | Some bytes \<Rightarrow>
          if take (length key) bytes = key then Some (drop (length key) bytes) else None)"

fun toy_qs :: "(string \<times> string) list \<Rightarrow> string" where
  "toy_qs [] = []"
| "toy_qs [(k, v)] = k @ ''='' @ v"
| "toy_qs ((k, v) # kv # kvs) = k @ ''='' @ v @ ''&'' @ toy_qs (kv # kvs)"

definition sample_runtime :: runtime where
  "sample_runtime =
     \<lparr>cipher = toy_cipher,
      decipher = toy_decipher,
      scryptSync = (\<lambda>password salt n. take n (concat (replicate n (password @ salt)))),
      sha256_hex = to_hex,
      json_stringify = JSON_stringify,
      json_parse = JSON_parse,
      qs_stringify = toy_qs,
      coerce_number =
        (\<lambda>v. case v of
               Str s \<Rightarrow> (case read_number s of Some (Num n, []) \<Rightarrow> n | _ \<Rightarrow> NaN)
             | _ \<Rightarrow> NaN),
      coerce_string =
        (\<lambda>v. case v of
               Num (Fin i) \<Rightarrow> show_int i
             | Num NaN \<Rightarrow> ''NaN''
             | _ \<Rightarrow> ''[object Object]'')\<rparr>"

definition sample_config :: config where
  "sample_config =
     \<lparr>TIKTOK_CLIENT_KEY = ''sbaw1234'',
      TIKTOK_CLIENT_SECRET = ''s3cr3t'',
      TIKTOK_REDIRECT_URI = ''http://localhost:3000/auth/callback''\<rparr>"

definition sample_storage :: storage where
  "sample_storage = \<lparr>encryptionKey = ''0123456789abcdef0123456789abcdef''\<rparr>"

text \<open>
  The text \<open>JSON_stringify\<close> writes for an envelope whose two strings need no escape,
  as hex strings do.
\<close>

definition plain :: "char \<Rightarrow> bool" where
  "plain c = (c \<noteq> CHR 0x22 \<and> c \<noteq> CHR 0x5C \<and> \<not> (of_char c :: nat) < 32)"

definition envelope_text :: "string \<Rightarrow> string \<Rightarrow> string" where
  "envelope_text h1 h2 =
     CHR ''{'' # CHR 0x22 # ''iv'' @ CHR 0x22 # CHR '':'' # CHR 0x22 # h1 @ CHR 0x22 # CHR '','' #
       CHR 0x22 # ''encrypted'' @ CHR 0x22 # CHR '':'' # CHR 0x22 # h2 @ CHR 0x22 # ''}''"

section \<open>Vocabulary of the properties\<close>

text \<open>
  The record of the specification, with its three fields; a record is fully populated
  when the three are present and not empty.
\<close>

definition credential_record :: "string \<Rightarrow> string \<Rightarrow> int \<Rightarrow> jsval" where
  "credential_record access refresh expires =
     Obj [(''access_token'', Str access),
          (''refresh_token'', Str refresh),
          (''expires_at'', Num (Fin expires))]"


text \<open>An envelope with its \<open>iv\<close> property replaced, everything else left as it is.\<close>

definition replace_iv :: "jsval \<Rightarrow> jsval \<Rightarrow> jsval" where
  "replace_iv v envelope =
     (case envelope of
        Obj kvs \<Rightarrow> Obj (map (\<lambda>(k, x). if k = ''iv'' then (k, v) else (k, x)) kvs)
      | _ \<Rightarrow> envelope)"


text \<open>Several \<open>GET /auth/login\<close> in a row, one list of draws for each.\<close>

definition logins :: "runtime \<Rightarrow> config \<Rightarrow> (nat \<Rightarrow> nat) list \<Rightarrow> world \<Rightarrow> world" where
  "logins rt cfg draws w = foldl (\<lambda>w' draw. snd (auth_login rt cfg draw w')) w draws"

text \<open>
  Sample inputs: a world whose file holds a given record, saved with the sample runtime,
  a record that expires 5000 ms after the time \<open>1700000000000\<close>, and what a call
  meets when the token endpoint answers \<open>answer\<close> at that time.
\<close>

definition stale_record :: jsval where
  "stale_record = credential_record ''act.old'' ''rft.old'' 1700000005000"

definition stored_world :: "jsval \<Rightarrow> world" where
  "stored_world r =
     \<lparr>codeVerifier = None,
      tokenFile = snd (saveTokens sample_runtime sample_storage ''0123456789abcdef'' None None r),
      requests = []\<rparr>"

definition authorizing_world :: "string \<Rightarrow> world" where
  "authorizing_world verifier = \<lparr>codeVerifier = Some verifier, tokenFile = None, requests = []\<rparr>"

definition answering :: "jsval option \<Rightarrow> io" where
  "answering answer =
     \<lparr>upstream = (\<lambda>r. answer),
      clock = 1700000000000,
      clock_save = 1700000000200,
      random_iv = ''fedcba9876543210'',
      write_fault = None\<rparr>"

text \<open>
  The draws of one login and the verifier they give, the draws of another login, and four
  answers of the token endpoint: a full one, one with an \<open>error\<close> field, an empty
  object, and one with nothing but an \<open>access_token\<close>.
\<close>

definition sample_draw :: "nat \<Rightarrow> nat" where
  "sample_draw i = (7 * i + 3) mod 66"

definition other_draw :: "nat \<Rightarrow> nat" where
  "other_draw i = 0"

definition sample_verifier :: string where
  "sample_verifier = ''DKRYfmt07AHOVcjqx4.ELSZgnu18BIPWdkry5_FMTahov29CJQXelsz6~GNUbipw''"

definition fresh_answer :: jsval where
  "fresh_answer =
     Obj [(''access_token'', Str ''act.new''),
          (''expires_in'', Num (Fin 86400)),
          (''refresh_token'', Str ''rft.new''),
          (''token_type'', Str ''Bearer'')]"

definition error_answer :: jsval where
  "error_answer =
     Obj [(''error'', Str ''invalid_grant''),
          (''error_description'', Str ''The grant is expired or revoked.'')]"

definition empty_answer :: jsval where
  "empty_answer = Obj []"

definition partial_answer :: jsval where
  "partial_answer = Obj [(''access_token'', Str ''act.new'')]"

section \<open>Facts about the sample runtime\<close>

lemma hex_value_digit: "k < 16 \<Longrightarrow> hex_value (hex_digit k) = Some k"
  by (simp add: hex_value_def hex_digit_def)

lemma of_char_bound: "(of_char c :: nat) < 256"
  using mod_less_divisor[of 256 "of_char c :: nat"] by simp

lemma from_hex_to_hex: "from_hex (to_hex s) = Some s"
proof (induction s)
  case Nil
  show ?case by simp
next
  case (Cons c cs)
  have hi: "(of_char c :: nat) div 16 < 16" using of_char_bound[of c] by arith
  have lo: "(of_char c :: nat) mod 16 < 16" by simp
  have joined: "char_of ((of_char c :: nat) div 16 * 16 + of_char c mod 16) = c" by simp
  show ?case
    by (simp only: to_hex.simps from_hex.simps hex_value_digit[OF hi] hex_value_digit[OF lo]
          Cons.IH joined prod.case option.case)
qed

lemma toy_roundtrip: "toy_decipher key (to_hex (key @ text)) = Some text"
  by (simp add: toy_decipher_def from_hex_to_hex)

lemma plain_hex_digit: "k < 16 \<Longrightarrow> plain (hex_digit k)"
proof -
  assume k: "k < 16"
  have "of_char (hex_digit k) = (if k < 10 then 48 + k else 87 + k)"
    using k by (simp add: hex_digit_def)
  moreover have "(of_char (CHR 0x22) :: nat) = 34" and "(of_char (CHR 0x5C) :: nat) = 92"
    by simp_all
  ultimately have "(of_char (hex_digit k) :: nat) \<noteq> of_char (CHR 0x22)"
    and "(of_char (hex_digit k) :: nat) \<noteq> of_char (CHR 0x5C)"
    and "\<not> (of_char (hex_digit k) :: nat) < 32"
    using k by (simp_all split: if_splits)
  then show ?thesis
    unfolding plain_def of_char_eq_iff by simp
qed

lemma plain_to_hex: "list_all plain (to_hex s)"
proof (induction s)
  case Nil
  show ?case by simp
next
  case (Cons c cs)
  have "(of_char c :: nat) div 16 < 16" using of_char_bound[of c] by arith
  moreover have "(of_char c :: nat) mod 16 < 16" by simp
  ultimately show ?case using Cons by (simp add: plain_hex_digit)
qed

lemma escape_plain_char: "plain c \<Longrightarrow> escape_char c = [c]"
proof -
  assume p: "plain c"
  then have "\<not> (of_char c :: nat) < 32" by (simp add: plain_def)
  moreover have "c \<noteq> CHR 0x08" "c \<noteq> CHR 0x0C" "c \<noteq> CHR 0x0A" "c \<noteq> CHR 0x0D" "c \<noteq> CHR 0x09"
    using p by (auto simp: plain_def)
  ultimately show ?thesis using p by (simp add: escape_char_def plain_def)
qed

lemma escape_plain: "list_all plain s \<Longrightarrow> concat (map escape_char s) = s"
  by (induction s) (simp_all add: escape_plain_char)

lemma read_string_plain:
  "list_all plain s \<Longrightarrow> read_string acc (s @ CHR 0x22 # rest) = Some (acc @ s, rest)"
proof (induction s arbitrary: acc)
  case Nil
  show ?case by (cases rest) simp_all
next
  case (Cons c cs)
  then have p: "plain c" and IH: "\<And>acc. read_string acc (cs @ CHR 0x22 # rest) = Some (acc @ cs, rest)"
    by simp_all
  obtain d ds where eq: "cs @ CHR 0x22 # rest = d # ds" by (cases cs) simp_all
  have "read_string acc (c # d # ds) = read_string (acc @ [c]) (d # ds)"
    using p by (simp add: plain_def)
  with IH[of "acc @ [c]"] eq show ?case by simp
qed

lemma envelope_stringify:
  "list_all plain h1 \<Longrightarrow> list_all plain h2 \<Longrightarrow>
   JSON_stringify (Obj [(''iv'', Str h1), (''encrypted'', Str h2)]) = Some (envelope_text h1 h2)"
  by (simp add: envelope_text_def quote_def escape_plain escape_char_def)

lemma read_envelope:
  assumes "list_all plain h1" and "list_all plain h2"
  shows "read_value (Suc (Suc (Suc (Suc n)))) (envelope_text h1 h2)
         = Some (Obj [(''iv'', Str h1), (''encrypted'', Str h2)], [])"
  using assms
  by (simp add: envelope_text_def skip_ws_def is_ws_def read_string_plain)

lemma envelope_parse:
  assumes "list_all plain h1" and "list_all plain h2"
  shows "JSON_parse (envelope_text h1 h2) = Some (Obj [(''iv'', Str h1), (''encrypted'', Str h2)])"
proof -
  have len: "Suc (length (envelope_text h1 h2)) = Suc (Suc (Suc (Suc (length h1 + length h2 + 21))))"
    by (simp add: envelope_text_def)
  show ?thesis
    unfolding JSON_parse_def len read_envelope[OF assms] by (simp add: skip_ws_def)
qed

section \<open>Saving and loading, for any runtime\<close>

lemma saveTokens_written:
  assumes "json_stringify rt r = Some text"
    and "cipher rt (encryptionKey st) text = Some enc"
    and "json_stringify rt (Obj [(''iv'', Str (to_hex iv)), (''encrypted'', Str enc)]) = Some content"
  shows "saveTokens rt st iv None old r = (True, Some content)"
  using assms by (simp add: saveTokens_def encrypt_def)

lemma loadTokens_read:
  assumes "json_parse rt content = Some envelope"
    and "get_prop envelope ''encrypted'' = Some (Str enc)"
    and "decipher rt (encryptionKey st) enc = Some text"
    and "json_parse rt text = Some v"
  shows "loadTokens rt st (Some content) = (if truthy v then v else Null)"
  using assms by (simp add: loadTokens_def decrypt_def decrypt_try_def)

lemma sample_saveTokens:
  assumes "JSON_stringify r = Some text"
  shows "saveTokens sample_runtime st iv None old r
         = (True, Some (envelope_text (to_hex iv) (to_hex (encryptionKey st @ text))))"
proof (rule saveTokens_written)
  show "json_stringify sample_runtime r = Some text"
    using assms by (simp add: sample_runtime_def)
  show "cipher sample_runtime (encryptionKey st) text = Some (to_hex (encryptionKey st @ text))"
    by (simp add: sample_runtime_def toy_cipher_def)
  show "json_stringify sample_runtime
          (Obj [(''iv'', Str (to_hex iv)), (''encrypted'', Str (to_hex (encryptionKey st @ text)))])
        = Some (envelope_text (to_hex iv) (to_hex (encryptionKey st @ text)))"
    by (simp only: sample_runtime_def runtime.simps envelope_stringify[OF plain_to_hex plain_to_hex])
qed

lemma sample_loadTokens:
  assumes "list_all plain h" and "JSON_parse text = Some v"
  shows "loadTokens sample_runtime st (Some (envelope_text h (to_hex (encryptionKey st @ text))))
         = (if truthy v then v else Null)"
proof (rule loadTokens_read)
  show "json_parse sample_runtime (envelope_text h (to_hex (encryptionKey st @ text)))
        = Some (Obj [(''iv'', Str h), (''encrypted'', Str (to_hex (encryptionKey st @ text)))])"
    by (simp only: sample_runtime_def runtime.simps envelope_parse[OF assms(1) plain_to_hex])
  show "get_prop (Obj [(''iv'', Str h), (''encrypted'', Str (to_hex (encryptionKey st @ text)))])
          ''encrypted'' = Some (Str (to_hex (encryptionKey st @ text)))"
    by simp
  show "decipher sample_runtime (encryptionKey st) (to_hex (encryptionKey st @ text)) = Some text"
    by (simp only: sample_runtime_def runtime.simps toy_roundtrip)
  show "json_parse sample_runtime text = Some v"
    using assms(2) by (simp add: sample_runtime_def)
qed

lemma sample_save_load:
  assumes "JSON_stringify r = Some text" and "JSON_parse text = Some v"
  shows "loadTokens sample_runtime st (snd (saveTokens sample_runtime st iv None old r))
         = (if truthy v then v else Null)"
  by (simp only: sample_saveTokens[OF assms(1)] snd_conv sample_loadTokens[OF plain_to_hex assms(2)])

section \<open>Evaluating the sample runtime\<close>

lemma hex_digit_values:
  "hex_digit 0 = CHR ''0''"
  "hex_digit 1 = CHR ''1''"
  "hex_digit (Suc 0) = CHR ''1''"
  "hex_digit 2 = CHR ''2''"
  "hex_digit 3 = CHR ''3''"
  "hex_digit 4 = CHR ''4''"
  "hex_digit 5 = CHR ''5''"
  "hex_digit 6 = CHR ''6''"
  "hex_digit 7 = CHR ''7''"
  "hex_digit 8 = CHR ''8''"
  "hex_digit 9 = CHR ''9''"
  "hex_digit 10 = CHR ''a''"
  "hex_digit 11 = CHR ''b''"
  "hex_digit 12 = CHR ''c''"
  "hex_digit 13 = CHR ''d''"
  "hex_digit 14 = CHR ''e''"
  "hex_digit 15 = CHR ''f''"
  by (simp_all add: hex_digit_def char_of_eq_iff)

lemmas json_eval = quote_def escape_char_def show_int_def hex_digit_values JSON_parse_def
  skip_ws_def is_ws_def read_number_def read_nat_def is_digit_def

lemma stale_json:
  "JSON_parse (the (JSON_stringify stale_record)) = Some stale_record"
  by (simp add: stale_record_def credential_record_def json_eval)

lemma stale_some: "JSON_stringify stale_record = Some (the (JSON_stringify stale_record))"
  by (simp add: stale_record_def credential_record_def)

lemma stale_load: "loadTokens sample_runtime sample_storage (tokenFile (stored_world stale_record)) = stale_record"
  using sample_save_load[OF stale_some stale_json, of sample_storage "''0123456789abcdef''" None]
  by (simp add: stored_world_def stale_record_def credential_record_def)

section \<open>The encrypted store\<close>

text \<open>
  C4. Every save draws an initialization vector and stores it beside the ciphertext, and
  the claim adds that the ciphertext depends on it. In the code it does not: \<open>encrypt\<close>
  makes the cipher from the key alone, so the \<open>encrypted\<close> string of the envelope is
  the same for any two draws \<open>iv\<close> and \<open>iv'\<close> of the vector (whatever the runtime's
  cipher is): the envelope of one draw is the envelope of the other with the stored
  \<open>iv\<close> property replaced.
\<close>

theorem encrypt_ciphertext_ignores_iv:
  "encrypt rt st iv' data = map_option (replace_iv (Str (to_hex iv'))) (encrypt rt st iv data)
   \<and> map_option (\<lambda>envelope. get_prop envelope ''encrypted'') (encrypt rt st iv' data)
     = map_option (\<lambda>envelope. get_prop envelope ''encrypted'') (encrypt rt st iv data)"
  by (simp add: encrypt_def replace_iv_def split: option.splits)

lemma get_prop_replace_iv: "get_prop (replace_iv v envelope) ''encrypted'' = get_prop envelope ''encrypted''"
proof (cases envelope)
  case (Obj kvs)
  have "map_of (map (\<lambda>(k, x). if k = ''iv'' then (k, v) else (k, x)) kvs) ''encrypted''
        = map_of kvs ''encrypted''"
    by (induction kvs) auto
  with Obj show ?thesis by (simp add: replace_iv_def)
qed (simp_all add: replace_iv_def)

lemma decrypt_replace_iv: "decrypt rt st (replace_iv v envelope) = decrypt rt st envelope"
  by (simp add: decrypt_def decrypt_try_def get_prop_replace_iv)

text \<open>
  C10. Decryption does not use the stored initialization vector. Let \<open>saveTokens\<close>
  write a record (any object), with a runtime whose cipher and JSON read back what they
  wrote for it, as in C6. When the \<open>iv\<close> property of the envelope in the file is then
  replaced by any value \<open>v\<close>, the \<open>encrypted\<close> property left as it is,
  \<open>loadTokens\<close> still returns the record that was saved.
\<close>

theorem load_ignores_stored_iv:
  assumes "json_stringify rt (Obj kvs) = Some text"
    and "json_parse rt text = Some (Obj kvs)"
    and "cipher rt (encryptionKey st) text = Some enc"
    and "decipher rt (encryptionKey st) enc = Some text"
    and "json_stringify rt (Obj [(''iv'', Str (to_hex iv)), (''encrypted'', Str enc)]) = Some content"
    and "json_parse rt content = Some (Obj [(''iv'', Str (to_hex iv)), (''encrypted'', Str enc)])"
    and "json_parse rt content'
         = Some (replace_iv v (Obj [(''iv'', Str (to_hex iv)), (''encrypted'', Str enc)]))"
  shows "saveTokens rt st iv None old (Obj kvs) = (True, Some content)
         \<and> loadTokens rt st (Some content) = Obj kvs
         \<and> loadTokens rt st (Some content') = Obj kvs"
proof (intro conjI)
  show "saveTokens rt st iv None old (Obj kvs) = (True, Some content)"
    by (rule saveTokens_written[OF assms(1) assms(3) assms(5)])
  have "loadTokens rt st (Some content) = (if truthy (Obj kvs) then Obj kvs else Null)"
    by (rule loadTokens_read[OF assms(6) _ assms(4) assms(2)]) simp
  then show "loadTokens rt st (Some content) = Obj kvs" by simp
  have "get_prop (replace_iv v (Obj [(''iv'', Str (to_hex iv)), (''encrypted'', Str enc)]))
          ''encrypted'' = Some (Str enc)"
    by (simp add: get_prop_replace_iv)
  then have "loadTokens rt st (Some content') = (if truthy (Obj kvs) then Obj kvs else Null)"
    by (rule loadTokens_read[OF assms(7) _ assms(4) assms(2)])
  then show "loadTokens rt st (Some content') = Obj kvs" by simp
qed

text \<open>
  With the sample runtime: the file written for \<open>stale_record\<close> holds the drawn vector
  in hex and loads as \<open>stale_record\<close>, and the same file with \<open>00\<close> for \<open>iv\<close>
  still loads as \<open>stale_record\<close>.
\<close>

theorem load_ignores_stored_iv_witness:
  "saveTokens sample_runtime sample_storage ''0123456789abcdef'' None None stale_record
     = (True,
        Some (envelope_text (to_hex ''0123456789abcdef'')
                (to_hex (encryptionKey sample_storage @ the (JSON_stringify stale_record)))))
   \<and> loadTokens sample_runtime sample_storage
         (Some (envelope_text (to_hex ''0123456789abcdef'')
                  (to_hex (encryptionKey sample_storage @ the (JSON_stringify stale_record)))))
       = stale_record
   \<and> loadTokens sample_runtime sample_storage
         (Some (envelope_text ''00''
                  (to_hex (encryptionKey sample_storage @ the (JSON_stringify stale_record)))))
       = stale_record"
proof -
  let ?kvs = "[(''access_token'', Str ''act.old''), (''refresh_token'', Str ''rft.old''),
               (''expires_at'', Num (Fin 1700000005000))]"
  have r: "stale_record = Obj ?kvs"
    by (simp add: stale_record_def credential_record_def)
  let ?text = "the (JSON_stringify stale_record)"
  let ?enc = "to_hex (encryptionKey sample_storage @ ?text)"
  let ?iv = "to_hex ''0123456789abcdef''"
  let ?envelope = "Obj [(''iv'', Str ?iv), (''encrypted'', Str ?enc)]"
  have p00: "list_all plain ''00''" by (simp add: plain_def)
  have h1: "json_stringify sample_runtime (Obj ?kvs) = Some ?text"
    using stale_some by (simp add: sample_runtime_def r)
  have h2: "json_parse sample_runtime ?text = Some (Obj ?kvs)"
    using stale_json by (simp add: sample_runtime_def r)
  have h3: "cipher sample_runtime (encryptionKey sample_storage) ?text = Some ?enc"
    by (simp add: sample_runtime_def toy_cipher_def)
  have h4: "decipher sample_runtime (encryptionKey sample_storage) ?enc = Some ?text"
    by (simp only: sample_runtime_def runtime.simps toy_roundtrip)
  have h5: "json_stringify sample_runtime ?envelope = Some (envelope_text ?iv ?enc)"
    by (simp only: sample_runtime_def runtime.simps envelope_stringify[OF plain_to_hex plain_to_hex])
  have h6: "json_parse sample_runtime (envelope_text ?iv ?enc) = Some ?envelope"
    by (simp only: sample_runtime_def runtime.simps envelope_parse[OF plain_to_hex plain_to_hex])
  have "json_parse sample_runtime (envelope_text ''00'' ?enc)
        = Some (Obj [(''iv'', Str ''00''), (''encrypted'', Str ?enc)])"
    by (simp only: sample_runtime_def runtime.simps envelope_parse[OF p00 plain_to_hex])
  also have "Obj [(''iv'', Str ''00''), (''encrypted'', Str ?enc)] = replace_iv (Str ''00'') ?envelope"
    by (simp add: replace_iv_def)
  finally have h7: "json_parse sample_runtime (envelope_text ''00'' ?enc)
        = Some (replace_iv (Str ''00'') ?envelope)" .
  from load_ignores_stored_iv[OF h1 h2 h3 h4 h5 h6 h7, of None]
  show ?thesis by (simp only: r)
qed

text \<open>
  C6. \<open>saveTokens\<close> followed by \<open>loadTokens\<close> returns the record saved, for every
  record of three fields, under the same key, when the write succeeds and the runtime's
  cipher and JSON read back what they wrote for this record and its envelope.
\<close>

theorem save_then_load_roundtrip:
  assumes "json_stringify rt (credential_record a b x) = Some text"
    and "json_parse rt text = Some (credential_record a b x)"
    and "cipher rt (encryptionKey st) text = Some enc"
    and "decipher rt (encryptionKey st) enc = Some text"
    and "json_stringify rt (Obj [(''iv'', Str (to_hex iv)), (''encrypted'', Str enc)]) = Some content"
    and "json_parse rt content = Some (Obj [(''iv'', Str (to_hex iv)), (''encrypted'', Str enc)])"
  shows "saveTokens rt st iv None old (credential_record a b x) = (True, Some content)
         \<and> loadTokens rt st (Some content) = credential_record a b x"
proof
  show "saveTokens rt st iv None old (credential_record a b x) = (True, Some content)"
    by (rule saveTokens_written[OF assms(1) assms(3) assms(5)])
  have "loadTokens rt st (Some content)
        = (if truthy (credential_record a b x) then credential_record a b x else Null)"
    by (rule loadTokens_read[OF assms(6) _ assms(4) assms(2)]) simp
  then show "loadTokens rt st (Some content) = credential_record a b x"
    by (simp add: credential_record_def)
qed

theorem save_then_load_roundtrip_witness:
  "fst (saveTokens sample_runtime sample_storage ''0123456789abcdef'' None None
          (credential_record ''act.old'' ''rft.old'' 1700000005000)) = True
   \<and> loadTokens sample_runtime sample_storage
         (snd (saveTokens sample_runtime sample_storage ''0123456789abcdef'' None None
                 (credential_record ''act.old'' ''rft.old'' 1700000005000)))
       = credential_record ''act.old'' ''rft.old'' 1700000005000"
proof -
  let ?r = "credential_record ''act.old'' ''rft.old'' 1700000005000"
  let ?text = "the (JSON_stringify ?r)"
  let ?enc = "to_hex (encryptionKey sample_storage @ ?text)"
  let ?envelope = "Obj [(''iv'', Str (to_hex ''0123456789abcdef'')), (''encrypted'', Str ?enc)]"
  let ?content = "envelope_text (to_hex ''0123456789abcdef'') ?enc"
  have h1: "json_stringify sample_runtime ?r = Some ?text"
    using stale_some by (simp add: sample_runtime_def stale_record_def)
  have h2: "json_parse sample_runtime ?text = Some ?r"
    using stale_json by (simp add: sample_runtime_def stale_record_def)
  have h3: "cipher sample_runtime (encryptionKey sample_storage) ?text = Some ?enc"
    by (simp add: sample_runtime_def toy_cipher_def)
  have h4: "decipher sample_runtime (encryptionKey sample_storage) ?enc = Some ?text"
    by (simp only: sample_runtime_def runtime.simps toy_roundtrip)
  have h5: "json_stringify sample_runtime ?envelope = Some ?content"
    by (simp only: sample_runtime_def runtime.simps envelope_stringify[OF plain_to_hex plain_to_hex])
  have h6: "json_parse sample_runtime ?content = Some ?envelope"
    by (simp only: sample_runtime_def runtime.simps envelope_parse[OF plain_to_hex plain_to_hex])
  from save_then_load_roundtrip[OF h1 h2 h3 h4 h5 h6, of None]
  show ?thesis by simp
qed

text \<open>
  C7. \<open>loadTokens\<close> returns \<open>null\<close> (absent) when there is no file, and when the file
  holds content that is not JSON, or JSON without an \<open>encrypted\<close> string, or a string
  the decipher rejects, or one whose plaintext is not JSON. It never raises: each
  exception of the runtime is a \<open>None\<close> that \<open>loadTokens\<close> and \<open>decrypt\<close> turn
  into \<open>Null\<close>.
\<close>

theorem load_absent_without_file_or_on_garbage:
  "loadTokens rt st None = Null
   \<and> (json_parse rt content = None \<longrightarrow> loadTokens rt st (Some content) = Null)
   \<and> (json_parse rt content = Some envelope
        \<and> (case get_prop envelope ''encrypted'' of Some (Str enc) \<Rightarrow> False | _ \<Rightarrow> True)
       \<longrightarrow> loadTokens rt st (Some content) = Null)
   \<and> (json_parse rt content = Some envelope \<and> get_prop envelope ''encrypted'' = Some (Str enc)
        \<and> decipher rt (encryptionKey st) enc = None
       \<longrightarrow> loadTokens rt st (Some content) = Null)
   \<and> (json_parse rt content = Some envelope \<and> get_prop envelope ''encrypted'' = Some (Str enc)
        \<and> decipher rt (encryptionKey st) enc = Some text \<and> json_parse rt text = None
       \<longrightarrow> loadTokens rt st (Some content) = Null)"
  by (auto simp: loadTokens_def decrypt_def decrypt_try_def split: option.splits jsval.splits)

theorem load_absent_without_file_or_on_garbage_witness:
  "loadTokens sample_runtime sample_storage None = Null
   \<and> json_parse sample_runtime ''garbage bytes'' = None
   \<and> loadTokens sample_runtime sample_storage (Some ''garbage bytes'') = Null
   \<and> json_parse sample_runtime ''{}'' = Some (Obj [])
   \<and> loadTokens sample_runtime sample_storage (Some ''{}'') = Null
   \<and> decipher sample_runtime (encryptionKey sample_storage) ''zz'' = None
   \<and> loadTokens sample_runtime sample_storage (Some (envelope_text ''00'' ''zz'')) = Null
   \<and> json_parse sample_runtime ''not json'' = None
   \<and> loadTokens sample_runtime sample_storage
         (Some (envelope_text ''00'' (to_hex (encryptionKey sample_storage @ ''not json'')))) = Null"
proof -
  let ?st = sample_storage
  have p00: "list_all plain ''00''" and pzz: "list_all plain ''zz''"
    by (simp_all add: plain_def)
  have g: "json_parse sample_runtime ''garbage bytes'' = None"
    by (simp add: sample_runtime_def json_eval)
  have b: "json_parse sample_runtime ''{}'' = Some (Obj [])"
    by (simp add: sample_runtime_def json_eval)
  have pz: "json_parse sample_runtime (envelope_text ''00'' ''zz'')
            = Some (Obj [(''iv'', Str ''00''), (''encrypted'', Str ''zz'')])"
    by (simp only: sample_runtime_def runtime.simps envelope_parse[OF p00 pzz])
  have dz: "decipher sample_runtime (encryptionKey ?st) ''zz'' = None"
    by (simp add: sample_runtime_def toy_decipher_def hex_value_def)
  let ?enc = "to_hex (encryptionKey ?st @ ''not json'')"
  have pn: "json_parse sample_runtime (envelope_text ''00'' ?enc)
            = Some (Obj [(''iv'', Str ''00''), (''encrypted'', Str ?enc)])"
    by (simp only: sample_runtime_def runtime.simps envelope_parse[OF p00 plain_to_hex])
  have dn: "decipher sample_runtime (encryptionKey ?st) ?enc = Some ''not json''"
    by (simp only: sample_runtime_def runtime.simps toy_roundtrip)
  have n: "json_parse sample_runtime ''not json'' = None"
    by (simp add: sample_runtime_def json_eval)
  have e: "get_prop (Obj [(''iv'', Str ''00''), (''encrypted'', Str enc)]) ''encrypted'' = Some (Str enc)"
    for enc by simp
  note t = load_absent_without_file_or_on_garbage
  have "loadTokens sample_runtime ?st None = Null"
    using t[of sample_runtime ?st] by blast
  moreover have "loadTokens sample_runtime ?st (Some ''garbage bytes'') = Null"
    using t[of sample_runtime ?st "''garbage bytes''"] g by blast
  moreover have "loadTokens sample_runtime ?st (Some ''{}'') = Null"
    using t[of sample_runtime ?st "''{}''" "Obj []"] b by simp
  moreover have "loadTokens sample_runtime ?st (Some (envelope_text ''00'' ''zz'')) = Null"
    using t[of sample_runtime ?st "envelope_text ''00'' ''zz''" _ "''zz''"] pz dz e by blast
  moreover have "loadTokens sample_runtime ?st (Some (envelope_text ''00'' ?enc)) = Null"
    using t[of sample_runtime ?st "envelope_text ''00'' ?enc" _ ?enc "''not json''"] pn dn n e
    by blast
  ultimately show ?thesis using g b dz n by blast
qed

section \<open>Evaluating the handlers on the sample inputs\<close>

lemma sample_verifier_drawn: "generateRandomString sample_draw 64 = sample_verifier"
  by code_simp

lemma sample_verifier_nonempty: "sample_verifier \<noteq> []"
  by (simp add: sample_verifier_def)

lemma authorizing_world_simps:
  "codeVerifier (authorizing_world v) = Some v"
  "tokenFile (authorizing_world v) = None"
  "requests (authorizing_world v) = []"
  by (simp_all add: authorizing_world_def)

lemma stored_world_simps:
  "codeVerifier (stored_world r) = None"
  "requests (stored_world r) = []"
  by (simp_all add: stored_world_def)

lemma answering_simps:
  "upstream (answering a) r = a"
  "clock (answering a) = 1700000000000"
  "clock_save (answering a) = 1700000000200"
  "random_iv (answering a) = ''fedcba9876543210''"
  "write_fault (answering a) = None"
  by (simp_all add: answering_def)

lemma new_tokens_fresh:
  "new_tokens rt 1700000000200 fresh_answer = credential_record ''act.new'' ''rft.new'' 1700086400200"
  by (simp add: new_tokens_def fresh_answer_def get_field_def credential_record_def)


lemma new_tokens_error:
  "new_tokens rt t error_answer
   = Obj [(''access_token'', Undefined), (''refresh_token'', Undefined), (''expires_at'', Num NaN)]"
  by (simp add: new_tokens_def error_answer_def get_field_def)


lemma error_load:
  "loadTokens sample_runtime st
     (snd (saveTokens sample_runtime st iv None old
             (Obj [(''access_token'', Undefined), (''refresh_token'', Undefined),
                   (''expires_at'', Num NaN)])))
   = Obj [(''expires_at'', Null)]"
proof -
  let ?r = "Obj [(''access_token'', Undefined), (''refresh_token'', Undefined),
                 (''expires_at'', Num NaN)]"
  have a: "JSON_stringify ?r = Some (the (JSON_stringify ?r))" by simp
  have b: "JSON_parse (the (JSON_stringify ?r)) = Some (Obj [(''expires_at'', Null)])"
    by (simp add: json_eval)
  show ?thesis using sample_save_load[OF a b] by simp
qed

lemma fresh_load:
  "loadTokens sample_runtime st
     (snd (saveTokens sample_runtime st iv None old
             (credential_record ''act.new'' ''rft.new'' 1700086400200)))
   = credential_record ''act.new'' ''rft.new'' 1700086400200"
proof -
  let ?r = "credential_record ''act.new'' ''rft.new'' 1700086400200"
  have a: "JSON_stringify ?r = Some (the (JSON_stringify ?r))"
    by (simp add: credential_record_def)
  have b: "JSON_parse (the (JSON_stringify ?r)) = Some ?r"
    by (simp add: credential_record_def json_eval)
  show ?thesis using sample_save_load[OF a b] by (simp add: credential_record_def)
qed

lemma credential_fields:
  "truthy (credential_record a b x)"
  "get_field (credential_record a b x) ''access_token'' = Str a"
  "get_field (credential_record a b x) ''refresh_token'' = Str b"
  "get_field (credential_record a b x) ''expires_at'' = Num (Fin x)"
  by (simp_all add: credential_record_def get_field_def)

lemma stale_fields:
  "truthy stale_record"
  "get_field stale_record ''access_token'' = Str ''act.old''"
  "get_field stale_record ''refresh_token'' = Str ''rft.old''"
  "get_field stale_record ''expires_at'' = Num (Fin 1700000005000)"
  by (simp_all add: stale_record_def credential_fields)

lemma answer_props:
  "get_prop error_answer ''access_token'' = Some Undefined"
  "get_prop error_answer ''error'' = Some (Str ''invalid_grant'')"
  "get_field error_answer ''error_description'' = Str ''The grant is expired or revoked.''"
  "get_prop fresh_answer ''access_token'' = Some (Str ''act.new'')"
  "get_prop fresh_answer ''error'' = Some Undefined"
  "get_field fresh_answer ''access_token'' = Str ''act.new''"
  "get_prop partial_answer ''access_token'' = Some (Str ''act.new'')"
  "get_prop partial_answer ''error'' = Some Undefined"
  "get_field partial_answer ''access_token'' = Str ''act.new''"
  "get_prop empty_answer ''error'' = Some Undefined"
  "get_field empty_answer ''access_token'' = Undefined"
  by (simp_all add: error_answer_def fresh_answer_def partial_answer_def empty_answer_def
        get_field_def)

lemmas callback_eval = auth_callback_def Let_def authorizing_world_simps answering_simps
  answer_props sample_verifier_nonempty

section \<open>The two handlers and the refresh\<close>

lemma auth_callback_verifier:
  "codeVerifier (snd (auth_callback rt cfg st e code w))
   = (if fst (auth_callback rt cfg st e code w) = LoginSuccessful then None else codeVerifier w)"
  by (simp add: auth_callback_def Let_def split: option.splits)


lemma auth_callback_success_code:
  "fst (auth_callback rt cfg st e code w) = LoginSuccessful \<Longrightarrow> \<exists>c. code = Some c \<and> c \<noteq> []"
  by (simp add: auth_callback_def Let_def split: option.splits if_splits)

lemma characters_length: "length characters = 66"
  by (simp add: characters_def)

lemma charAt_length: "k < 66 \<Longrightarrow> length (charAt characters k) = 1"
  by (simp add: charAt_def characters_length)

lemma generateRandomString_length:
  "\<forall>i<n. draw i < 66 \<Longrightarrow> length (generateRandomString draw n) = n"
  by (induction n) (simp_all add: charAt_length)

lemma auth_login_world:
  "snd (auth_login rt cfg draw w) = w\<lparr>codeVerifier := Some (generateRandomString draw 64)\<rparr>"
  by (simp add: auth_login_def generatePKCE_def Let_def)

lemma logins_snoc:
  "logins rt cfg (draws @ [draw]) w
   = (logins rt cfg draws w)\<lparr>codeVerifier := Some (generateRandomString draw 64)\<rparr>"
  by (simp add: logins_def auth_login_world)

lemma logins_requests: "requests (logins rt cfg draws w) = requests w"
  by (induction draws rule: rev_induct) (simp_all add: logins_snoc, simp add: logins_def)

lemma logins_verifier:
  "draws \<noteq> [] \<Longrightarrow>
   codeVerifier (logins rt cfg draws w) = Some (generateRandomString (last draws) 64)"
  by (cases draws rule: rev_cases) (simp_all add: logins_snoc)

text \<open>
  C1. The claim: when the refresh answer carries an \<open>error\<close> field,
  \<open>getValidAccessToken\<close> fails and the stored record stays as it was. The code does
  not read \<open>error\<close> on this path (the callback does): with \<open>stale_record\<close> in the
  file and the answer \<open>{error, error_description}\<close> to the refresh request, it
  resolves with \<open>undefined\<close>, and it has saved the record built from the answer, so that
  the file now loads as \<open>{expires_at: null}\<close>.
\<close>

theorem refresh_error_answer_overwrites_record:
  "loadTokens sample_runtime sample_storage (tokenFile (stored_world stale_record)) = stale_record
   \<and> fst (getValidAccessToken sample_runtime sample_config sample_storage
            (answering (Some error_answer)) (stored_world stale_record)) = Inr Undefined
   \<and> loadTokens sample_runtime sample_storage
        (tokenFile (snd (getValidAccessToken sample_runtime sample_config sample_storage
                           (answering (Some error_answer)) (stored_world stale_record))))
      = Obj [(''expires_at'', Null)]"
proof -
  have run: "getValidAccessToken sample_runtime sample_config sample_storage
               (answering (Some error_answer)) (stored_world stale_record)
             = (Inr Undefined,
                (stored_world stale_record)
                  \<lparr>requests := [refresh_request sample_config stale_record],
                   tokenFile :=
                     snd (saveTokens sample_runtime sample_storage ''fedcba9876543210'' None
                            (tokenFile (stored_world stale_record))
                            (Obj [(''access_token'', Undefined), (''refresh_token'', Undefined),
                                  (''expires_at'', Num NaN)]))\<rparr>)"
    by (simp add: getValidAccessToken_def Let_def stale_load stale_fields
          answering_simps stored_world_simps new_tokens_error answer_props)
  show ?thesis
    by (simp add: run stale_load error_load)
qed







text \<open>
  C5, as the code has it. With a record loaded whose \<open>expires_at\<close> is the number
  \<open>x\<close>: before \<open>x - 60000\<close> the cached \<open>access_token\<close> is returned and nothing
  else happens; from \<open>x - 60000\<close> on, exactly one request, the refresh request, is
  sent. A record with \<open>expires_at = now + 5000\<close> is inside the margin already.
\<close>

theorem cached_token_iff_outside_margin:
  assumes "loadTokens rt st (tokenFile w) = tokens" and "truthy tokens"
    and "get_field tokens ''expires_at'' = Num (Fin x)"
  shows "(clock e < x - 60000 \<longrightarrow>
            getValidAccessToken rt cfg st e w = (Inr (get_field tokens ''access_token''), w))
       \<and> (\<not> clock e < x - 60000 \<longrightarrow>
            requests (snd (getValidAccessToken rt cfg st e w))
            = requests w @ [refresh_request cfg tokens])
       \<and> (x = clock e + 5000 \<longrightarrow>
            requests (snd (getValidAccessToken rt cfg st e w))
            = requests w @ [refresh_request cfg tokens])"
  using assms
  by (auto simp: getValidAccessToken_def Let_def split: option.splits)

text \<open>
  The claim as stated fails: with \<open>expires_at = now + 5000\<close> the call made at \<open>now\<close>
  sends the refresh request and returns the new token, not the cached one.
\<close>

theorem token_expiring_in_5000_ms_is_refreshed:
  "get_field (loadTokens sample_runtime sample_storage (tokenFile (stored_world stale_record)))
     ''expires_at''
     = Num (Fin (clock (answering (Some fresh_answer)) + 5000))
   \<and> fst (getValidAccessToken sample_runtime sample_config sample_storage
            (answering (Some fresh_answer)) (stored_world stale_record))
       = Inr (Str ''act.new'')
   \<and> requests
         (snd (getValidAccessToken sample_runtime sample_config sample_storage
                 (answering (Some fresh_answer)) (stored_world stale_record)))
       = [refresh_request sample_config stale_record]"
  by (simp add: getValidAccessToken_def Let_def stale_load stale_fields answering_simps
        stored_world_simps answer_props)

theorem cached_token_iff_outside_margin_witness:
  "requests
     (snd (getValidAccessToken sample_runtime sample_config sample_storage
             (answering (Some fresh_answer)) (stored_world stale_record)))
     = [refresh_request sample_config stale_record]
   \<and> getValidAccessToken sample_runtime sample_config sample_storage (answering None)
         (stored_world (credential_record ''act.new'' ''rft.new'' 1700086400200))
       = (Inr (Str ''act.new''),
          stored_world (credential_record ''act.new'' ''rft.new'' 1700086400200))"
proof -
  let ?fresh = "credential_record ''act.new'' ''rft.new'' 1700086400200"
  note t = cached_token_iff_outside_margin
  have "requests
          (snd (getValidAccessToken sample_runtime sample_config sample_storage
                  (answering (Some fresh_answer)) (stored_world stale_record)))
        = requests (stored_world stale_record) @ [refresh_request sample_config stale_record]"
    using t[OF stale_load stale_fields(1) stale_fields(4), of "answering (Some fresh_answer)"
              sample_config]
    by (simp add: answering_simps)
  moreover have load: "loadTokens sample_runtime sample_storage (tokenFile (stored_world ?fresh))
                       = ?fresh"
    by (simp add: stored_world_def fresh_load)
  have "getValidAccessToken sample_runtime sample_config sample_storage (answering None)
          (stored_world ?fresh)
        = (Inr (get_field ?fresh ''access_token''), stored_world ?fresh)"
    using t[OF load credential_fields(1) credential_fields(4), of "answering None" sample_config]
    by (simp add: answering_simps)
  ultimately show ?thesis
    by (simp add: stored_world_simps credential_fields)
qed

text \<open>
  C8. The callback replies 400 \<open>Missing code\<close> when the code is absent or empty, and
  400 \<open>No code verifier found\<close> when a code is given and no verifier is outstanding;
  the two replies differ; and after a successful call, a second call with the same code
  gets \<open>No code verifier found\<close>. Neither reply changes the state.
\<close>

theorem callback_missing_code_or_verifier:
  "((code = None \<or> code = Some []) \<longrightarrow>
      auth_callback rt cfg st e code w = (Send 400 ''Missing code'', w))
   \<and> (c \<noteq> [] \<and> (codeVerifier w = None \<or> codeVerifier w = Some []) \<longrightarrow>
      auth_callback rt cfg st e (Some c) w = (Send 400 ''No code verifier found'', w))
   \<and> Send 400 ''Missing code'' \<noteq> Send 400 ''No code verifier found''
   \<and> (fst (auth_callback rt cfg st e (Some c) w) = LoginSuccessful \<longrightarrow>
      auth_callback rt cfg st e' (Some c) (snd (auth_callback rt cfg st e (Some c) w))
      = (Send 400 ''No code verifier found'', snd (auth_callback rt cfg st e (Some c) w)))"
proof (intro conjI impI)
  assume "code = None \<or> code = Some []"
  then show "auth_callback rt cfg st e code w = (Send 400 ''Missing code'', w)"
    by (auto simp: auth_callback_def)
next
  assume "c \<noteq> [] \<and> (codeVerifier w = None \<or> codeVerifier w = Some [])"
  then show "auth_callback rt cfg st e (Some c) w = (Send 400 ''No code verifier found'', w)"
    by (auto simp: auth_callback_def)
next
  show "Send 400 ''Missing code'' \<noteq> Send 400 ''No code verifier found''" by simp
next
  let ?w' = "snd (auth_callback rt cfg st e (Some c) w)"
  assume ok: "fst (auth_callback rt cfg st e (Some c) w) = LoginSuccessful"
  then have "codeVerifier ?w' = None" by (simp add: auth_callback_verifier)
  moreover have "c \<noteq> []" using auth_callback_success_code[OF ok] by simp
  ultimately show "auth_callback rt cfg st e' (Some c) ?w' = (Send 400 ''No code verifier found'', ?w')"
    by (simp add: auth_callback_def)
qed

theorem callback_missing_code_or_verifier_witness:
  "auth_callback sample_runtime sample_config sample_storage (answering (Some fresh_answer))
     None (authorizing_world sample_verifier)
     = (Send 400 ''Missing code'', authorizing_world sample_verifier)
   \<and> auth_callback sample_runtime sample_config sample_storage (answering (Some fresh_answer))
       (Some ''code1'') (stored_world stale_record)
     = (Send 400 ''No code verifier found'', stored_world stale_record)
   \<and> fst (auth_callback sample_runtime sample_config sample_storage (answering (Some fresh_answer))
            (Some ''code1'') (authorizing_world sample_verifier)) = LoginSuccessful
   \<and> fst (auth_callback sample_runtime sample_config sample_storage (answering (Some fresh_answer))
            (Some ''code1'')
            (snd (auth_callback sample_runtime sample_config sample_storage
                    (answering (Some fresh_answer)) (Some ''code1'')
                    (authorizing_world sample_verifier))))
     = Send 400 ''No code verifier found''"
proof -
  let ?e = "answering (Some fresh_answer)"
  let ?w = "authorizing_world sample_verifier"
  let ?cb = "auth_callback sample_runtime sample_config sample_storage ?e"
  note t = callback_missing_code_or_verifier
  have a: "?cb None ?w = (Send 400 ''Missing code'', ?w)"
    using t[of None sample_runtime sample_config sample_storage ?e ?w] by simp
  have b: "?cb (Some ''code1'') (stored_world stale_record)
           = (Send 400 ''No code verifier found'', stored_world stale_record)"
    using t[of _ sample_runtime sample_config sample_storage ?e "stored_world stale_record" "''code1''"]
    by (simp add: stored_world_simps)
  have ok: "fst (?cb (Some ''code1'') ?w) = LoginSuccessful"
    by (simp add: callback_eval)
  have c: "?cb (Some ''code1'') (snd (?cb (Some ''code1'') ?w))
           = (Send 400 ''No code verifier found'', snd (?cb (Some ''code1'') ?w))"
    using t[of _ sample_runtime sample_config sample_storage ?e ?w "''code1''" ?e] ok by blast
  show ?thesis using a b ok c by simp
qed

text \<open>
  C9. There is one slot for the verifier, and each login overwrites it: after any number
  of logins (at least one) the slot holds the verifier of the last one, and the request
  the callback then sends carries exactly that verifier. The draws of a login are below
  66, as \<open>Math.floor(Math.random() * 66)\<close> is.
\<close>

theorem last_login_verifier_is_used:
  assumes "draws \<noteq> []" and "\<forall>i<64. last draws i < 66" and "c \<noteq> []"
  shows "codeVerifier (logins rt cfg draws w) = Some (generateRandomString (last draws) 64)
       \<and> requests (snd (auth_callback rt cfg st e (Some c) (logins rt cfg draws w)))
         = requests w @ [code_request cfg c (generateRandomString (last draws) 64)]"
proof
  let ?v = "generateRandomString (last draws) 64"
  show v: "codeVerifier (logins rt cfg draws w) = Some ?v"
    by (rule logins_verifier[OF assms(1)])
  have "length ?v = 64" by (rule generateRandomString_length[OF assms(2)])
  then have "?v \<noteq> []" by auto
  with v assms(3)
  show "requests (snd (auth_callback rt cfg st e (Some c) (logins rt cfg draws w)))
        = requests w @ [code_request cfg c ?v]"
    by (simp add: auth_callback_def Let_def logins_requests split: option.splits)
qed

theorem last_login_verifier_is_used_witness:
  "codeVerifier
     (logins sample_runtime sample_config [other_draw, sample_draw]
        (authorizing_world ''an older verifier''))
     = Some sample_verifier
   \<and> requests
         (snd (auth_callback sample_runtime sample_config sample_storage
                 (answering (Some fresh_answer)) (Some ''code1'')
                 (logins sample_runtime sample_config [other_draw, sample_draw]
                    (authorizing_world ''an older verifier''))))
       = [code_request sample_config ''code1'' sample_verifier]"
proof -
  have h1: "[other_draw, sample_draw] \<noteq> []" by simp
  have h2: "\<forall>i<64. last [other_draw, sample_draw] i < 66"
    by (simp add: sample_draw_def)
  have h3: "''code1'' \<noteq> []" by simp
  from last_login_verifier_is_used[OF h1 h2 h3]
  show ?thesis
    by (simp add: sample_verifier_drawn authorizing_world_simps)
qed

end
